theory Spec2Isabelle
  imports Complex_Main "HOL-Library.Word" "HOL-Library.Sublist"
begin

section \<open>JavaScript strings\<close>

text \<open>
  A JavaScript string is a sequence of UTF-16 code units. The regular expressions of the
  program carry no \<open>u\<close> flag, so \<open>replace\<close>, \<open>match\<close>, \<open>substring\<close>, \<open>includes\<close> and
  \<open>trim\<close> all work on code units.
\<close>

type_synonym jschar = "16 word"
type_synonym jsstr = "jschar list"

text \<open>An ASCII literal of the source, as code units.\<close>

definition js :: "string \<Rightarrow> jsstr" where
  "js s = map (\<lambda>c. of_nat (of_char c)) s"

definition is_digit :: "jschar \<Rightarrow> bool" where
  "is_digit c = (0x30 \<le> c \<and> c \<le> 0x39)"

definition is_upper :: "jschar \<Rightarrow> bool" where
  "is_upper c = (0x41 \<le> c \<and> c \<le> 0x5A)"

definition is_lower :: "jschar \<Rightarrow> bool" where
  "is_lower c = (0x61 \<le> c \<and> c \<le> 0x7A)"

text \<open>\<open>String.prototype.includes\<close>: the argument occurs as a contiguous run of code units.\<close>

fun str_includes :: "jsstr \<Rightarrow> jsstr \<Rightarrow> bool" where
  "str_includes [] t = (t = [])"
| "str_includes (c # s) t = (prefix t (c # s) \<or> str_includes s t)"

section \<open>Descriptor: video id, sanitized title, destination name\<close>

text \<open>
  The character class of \<open>/[^a-zA-Z0-9\-_]/g\<close>: a code unit is kept when it is an ASCII
  letter, an ASCII digit, \<open>-\<close> or \<open>_\<close>.
\<close>

definition in_class :: "jschar \<Rightarrow> bool" where
  "in_class c = (is_lower c \<or> is_upper c \<or> is_digit c \<or> c = 0x2D \<or> c = 0x5F)"

text \<open>\<open>title.replace(/[^a-zA-Z0-9\-_]/g, '_').substring(0, 50)\<close>\<close>

definition sanitizedTitle :: "jsstr \<Rightarrow> jsstr" where
  "sanitizedTitle title = take 50 (map (\<lambda>c. if in_class c then c else 0x5F) title)"

text \<open>
  \<open>url.match(/video\/(\d+)/)\<close>: the leftmost place where \<open>video/\<close> is followed by a digit;
  group 1 is the longest run of digits there. \<open>None\<close> is the \<open>null\<close> of no match.
\<close>

fun match_video :: "jsstr \<Rightarrow> jsstr option" where
  "match_video [] = None"
| "match_video (c # s) =
     (if prefix (js ''video/'') (c # s) \<and> takeWhile is_digit (drop 6 (c # s)) \<noteq> []
      then Some (takeWhile is_digit (drop 6 (c # s)))
      else match_video s)"

text \<open>\<open>url.match(/video\/(\d+)/)?.[1] || 'tiktok_video'\<close>\<close>

definition videoId :: "jsstr \<Rightarrow> jsstr" where
  "videoId url = (case match_video url of Some d \<Rightarrow> d | None \<Rightarrow> js ''tiktok_video'')"

text \<open>The template \<open>`${sanitizedTitle}_${videoId}.mp4`\<close>.\<close>

definition destName :: "jsstr \<Rightarrow> jsstr \<Rightarrow> jsstr" where
  "destName title vid = sanitizedTitle title @ js ''_'' @ vid @ js ''.mp4''"

section \<open>Built-in string functions used by the program\<close>

text \<open>
  \<open>String.prototype.trim\<close> removes the WhiteSpace and LineTerminator code units of
  ECMAScript from both ends.
\<close>

definition is_space :: "jschar \<Rightarrow> bool" where
  "is_space c = (c \<in> {0x09, 0x0A, 0x0B, 0x0C, 0x0D, 0x20, 0xA0, 0x1680, 0x2028, 0x2029,
                       0x202F, 0x205F, 0x3000, 0xFEFF} \<or> (0x2000 \<le> c \<and> c \<le> 0x200A))"

definition trim :: "jsstr \<Rightarrow> jsstr" where
  "trim s = rev (dropWhile is_space (rev (dropWhile is_space s)))"

text \<open>\<open>String(n)\<close> for a non-negative integer: its decimal digits.\<close>

fun show_nat :: "nat \<Rightarrow> jsstr" where
  "show_nat n = (if n < 10 then [of_nat (48 + n)]
                 else show_nat (n div 10) @ [of_nat (48 + n mod 10)])"

text \<open>
  \<open>encodeURIComponent\<close>: the unreserved code units stay, every other code point is
  written as the percent-escaped bytes of its UTF-8 encoding, and a surrogate that is not
  part of a pair throws \<open>URIError\<close> (the \<open>None\<close> here).
\<close>

definition uri_unreserved :: "jschar \<Rightarrow> bool" where
  "uri_unreserved c = (is_lower c \<or> is_upper c \<or> is_digit c \<or>
                        c \<in> {0x2D, 0x5F, 0x2E, 0x21, 0x7E, 0x2A, 0x27, 0x28, 0x29})"

definition is_high_surrogate :: "jschar \<Rightarrow> bool" where
  "is_high_surrogate c = (0xD800 \<le> c \<and> c \<le> 0xDBFF)"

definition is_low_surrogate :: "jschar \<Rightarrow> bool" where
  "is_low_surrogate c = (0xDC00 \<le> c \<and> c \<le> 0xDFFF)"

definition hex_digit :: "nat \<Rightarrow> jschar" where
  "hex_digit d = (if d < 10 then of_nat (48 + d) else of_nat (55 + d))"

definition percent :: "nat \<Rightarrow> jsstr" where
  "percent b = [0x25, hex_digit (b div 16), hex_digit (b mod 16)]"

definition utf8 :: "nat \<Rightarrow> nat list" where
  "utf8 cp =
     (if cp < 0x80 then [cp]
      else if cp < 0x800 then [0xC0 + cp div 64, 0x80 + cp mod 64]
      else if cp < 0x10000 then
        [0xE0 + cp div 4096, 0x80 + (cp div 64) mod 64, 0x80 + cp mod 64]
      else [0xF0 + cp div 262144, 0x80 + (cp div 4096) mod 64,
            0x80 + (cp div 64) mod 64, 0x80 + cp mod 64])"

definition escape :: "nat \<Rightarrow> jsstr" where
  "escape cp = concat (map percent (utf8 cp))"

fun encodeURIComponent :: "jsstr \<Rightarrow> jsstr option" where
  "encodeURIComponent [] = Some []"
| "encodeURIComponent [c] =
     (if uri_unreserved c then Some [c]
      else if is_low_surrogate c \<or> is_high_surrogate c then None
      else Some (escape (unat c)))"
| "encodeURIComponent (c # d # s) =
     (if uri_unreserved c then map_option ((#) c) (encodeURIComponent (d # s))
      else if is_low_surrogate c then None
      else if is_high_surrogate c then
        (if is_low_surrogate d
         then map_option
                ((@) (escape (0x10000 + (unat c - 0xD800) * 0x400 + (unat d - 0xDC00))))
                (encodeURIComponent s)
         else None)
      else map_option ((@) (escape (unat c))) (encodeURIComponent (d # s)))"

section \<open>JavaScript values and exceptions\<close>

text \<open>
  The values \<open>res.json()\<close> can produce, and \<open>undefined\<close>. Of a number the program only
  observes whether it is zero. An object is the list of its own properties; the first
  entry of a key is that property's value.
\<close>

datatype jsval =
    JUndefined
  | JNull
  | JBool bool
  | JNum rat
  | JStr jsstr
  | JArr "jsval list"
  | JObj "(jsstr \<times> jsval) list"

fun truthy :: "jsval \<Rightarrow> bool" where
  "truthy JUndefined = False"
| "truthy JNull = False"
| "truthy (JBool b) = b"
| "truthy (JNum q) = (q \<noteq> 0)"
| "truthy (JStr s) = (s \<noteq> [])"
| "truthy (JArr xs) = True"
| "truthy (JObj kvs) = True"

text \<open>A thrown or rejected error; the program reads only its \<open>message\<close>.\<close>

datatype exn = Exn (message: jsstr)

text \<open>
  Property read \<open>v.k\<close> for the keys the program reads (\<open>data\<close>, \<open>play\<close>, \<open>title\<close>, \<open>msg\<close>,
  none of them inherited from a prototype): \<open>TypeError\<close> on \<open>null\<close> and \<open>undefined\<close>, the own
  property of an object, \<open>undefined\<close> otherwise.
\<close>

fun get_prop :: "jsval \<Rightarrow> jsstr \<Rightarrow> exn + jsval" where
  "get_prop JUndefined k = Inl (Exn (js ''Cannot read properties of undefined''))"
| "get_prop JNull k = Inl (Exn (js ''Cannot read properties of null''))"
| "get_prop (JObj kvs) k = Inr (case map_of kvs k of Some v \<Rightarrow> v | None \<Rightarrow> JUndefined)"
| "get_prop v k = Inr JUndefined"

text \<open>
  Method call \<open>m.includes(t)\<close> with a string argument: the substring test on a string,
  membership on an array, \<open>TypeError\<close> on every other value (no such method).
\<close>

fun call_includes :: "jsval \<Rightarrow> jsstr \<Rightarrow> exn + bool" where
  "call_includes (JStr s) t = Inr (str_includes s t)"
| "call_includes (JArr xs) t = Inr (JStr t \<in> set xs)"
| "call_includes v t = Inl (Exn (js ''data.msg.includes is not a function''))"

section \<open>The network and the file system\<close>

datatype http_method = GET | HEAD

text \<open>What the program passes to \<open>fetch\<close>: the resource, the method, the headers, the timeout.\<close>

record request =
  req_url :: jsval
  req_method :: http_method
  req_user_agent :: "jsstr option"
  req_timeout :: "nat option"

text \<open>
  What the program reads of a response: \<open>status\<close>, \<open>statusText\<close>,
  \<open>headers.get('content-type')\<close> and the result of \<open>json()\<close> (\<open>None\<close> when it rejects).
\<close>

record response =
  res_status :: nat
  res_statusText :: jsstr
  res_content_type :: "jsstr option"
  res_json :: "jsval option"

definition ok :: "response \<Rightarrow> bool" where
  "ok res = (200 \<le> res_status res \<and> res_status res \<le> 299)"

datatype fetch_result = Rejected exn | Fulfilled response

text \<open>
  The outside world has a state \<open>'w\<close> the program cannot see. \<open>fetch\<close> answers a request,
  \<open>pipeline\<close> is \<open>fs.createWriteStream\<close> followed by \<open>pipeline(videoRes.body, fileStream)\<close>
  (\<open>Some e\<close> when either throws or rejects), \<open>path_join\<close> is \<open>path.join\<close>.
\<close>

record 'w env =
  fetch :: "request \<Rightarrow> 'w \<Rightarrow> fetch_result \<times> 'w"
  pipeline :: "response \<Rightarrow> jsstr \<Rightarrow> 'w \<Rightarrow> exn option \<times> 'w"
  path_join :: "jsstr \<Rightarrow> jsstr \<Rightarrow> jsstr"

text \<open>The state threaded through the program: the world and the requests made so far.\<close>

record 'w net =
  world :: 'w
  log :: "request list"

definition do_fetch :: "'w env \<Rightarrow> request \<Rightarrow> 'w net \<Rightarrow> fetch_result \<times> 'w net" where
  "do_fetch env req st =
     (case fetch env req (world st) of
        (r, w) \<Rightarrow> (r, st\<lparr>world := w, log := log st @ [req]\<rparr>))"

definition do_pipeline :: "'w env \<Rightarrow> response \<Rightarrow> jsstr \<Rightarrow> 'w net \<Rightarrow> exn option \<times> 'w net" where
  "do_pipeline env res file st =
     (case pipeline env res file (world st) of (r, w) \<Rightarrow> (r, st\<lparr>world := w\<rparr>))"

definition user_agent :: jsstr where
  "user_agent = js ''Mozilla/5.0 (Windows NT 10.0; Win64; x64) AppleWebKit/537.36''"

definition probe_request :: request where
  "probe_request = \<lparr>req_url = JStr (js ''https://httpbin.org/status/200''), req_method = GET,
                     req_user_agent = None, req_timeout = Some 5000\<rparr>"

definition api_request :: "jsstr \<Rightarrow> request" where
  "api_request apiUrl = \<lparr>req_url = JStr apiUrl, req_method = GET,
                          req_user_agent = Some user_agent, req_timeout = Some 10000\<rparr>"

definition media_request :: "jsval \<Rightarrow> request" where
  "media_request videoUrl = \<lparr>req_url = videoUrl, req_method = GET,
                              req_user_agent = Some user_agent, req_timeout = None\<rparr>"

definition head_request :: "jsstr \<Rightarrow> request" where
  "head_request testUrl = \<lparr>req_url = JStr testUrl, req_method = HEAD,
                            req_user_agent = None, req_timeout = Some 5000\<rparr>"

section \<open>server.mjs\<close>

subsection \<open>\<open>testNetworkConnectivity\<close>\<close>

text \<open>\<open>try { ...; return testResponse.ok } catch (error) { return false }\<close>\<close>

definition testNetworkConnectivity :: "'w env \<Rightarrow> 'w net \<Rightarrow> bool \<times> 'w net" where
  "testNetworkConnectivity env st =
     (case do_fetch env probe_request st of
        (Rejected e, st1) \<Rightarrow> (False, st1)
      | (Fulfilled testResponse, st1) \<Rightarrow> (ok testResponse, st1))"

subsection \<open>\<open>tryTikWmAPI\<close>\<close>

text \<open>What \<open>tryTikWmAPI\<close> returns: the object, \<open>'PRIVATE'\<close>, \<open>'NOT_FOUND'\<close> or \<open>null\<close>.\<close>

datatype videoData =
    VideoData (data_videoUrl: jsval) (data_title: jsval)
  | PRIVATE
  | NOT_FOUND
  | NullData

text \<open>
  The two entries of \<open>endpoints\<close>. They are built before the loop and outside its \<open>try\<close>,
  so the \<open>URIError\<close> of \<open>encodeURIComponent\<close> leaves \<open>tryTikWmAPI\<close>.
\<close>

definition endpoints :: "jsstr \<Rightarrow> jsstr list" where
  "endpoints encoded = [js ''https://tikwm.com/api/?url='' @ encoded,
                        js ''https://www.tikwm.com/api/?url='' @ encoded]"

text \<open>
  Lines 51 to 57, the test of \<open>data.msg\<close>: \<open>Some\<close> is a \<open>return\<close>, \<open>None\<close> falls out of the
  \<open>if\<close>. The \<open>||\<close> does not evaluate its second operand when the first is true.
\<close>

definition check_msg :: "jsval \<Rightarrow> exn + videoData option" where
  "check_msg msg =
     (if truthy msg then
        (case call_includes msg (js ''private'') of Inl e \<Rightarrow> Inl e | Inr a \<Rightarrow>
         case (if a then Inr True else call_includes msg (js ''friends'')) of
           Inl e \<Rightarrow> Inl e
         | Inr True \<Rightarrow> Inr (Some PRIVATE)
         | Inr False \<Rightarrow>
            (case call_includes msg (js ''not found'') of Inl e \<Rightarrow> Inl e | Inr c \<Rightarrow>
             case (if c then Inr True else call_includes msg (js ''deleted'')) of
               Inl e \<Rightarrow> Inl e
             | Inr True \<Rightarrow> Inr (Some NOT_FOUND)
             | Inr False \<Rightarrow> Inr None))
      else Inr None)"

text \<open>
  The classification \<open>check_msg\<close> ends the chain with, if any: the \<open>TypeError\<close> of a
  message without \<open>includes\<close> is caught by the loop, which goes on as it does for a
  message that classifies nothing.
\<close>

definition terminal_class :: "jsval \<Rightarrow> videoData option" where
  "terminal_class msg = (case check_msg msg of Inr (Some v) \<Rightarrow> Some v | _ \<Rightarrow> None)"

text \<open>
  Lines 43 to 48, \<open>if (data.data && data.data.play) return {...}\<close>: \<open>Some\<close> is the returned
  object, \<open>None\<close> is the test failing. \<open>a && b\<close> is \<open>a\<close> when \<open>a\<close> is falsy and \<open>b\<close> otherwise;
  \<open>t || 'tiktok_video'\<close> is \<open>t\<close> when \<open>t\<close> is truthy.
\<close>

definition check_play :: "jsval \<Rightarrow> exn + videoData option" where
  "check_play data =
     (case get_prop data (js ''data'') of Inl e \<Rightarrow> Inl e | Inr d \<Rightarrow>
      case (if truthy d then get_prop d (js ''play'') else Inr d) of Inl e \<Rightarrow> Inl e | Inr c \<Rightarrow>
      if truthy c then
        (case get_prop d (js ''play'') of Inl e \<Rightarrow> Inl e | Inr play \<Rightarrow>
         case get_prop d (js ''title'') of Inl e \<Rightarrow> Inl e | Inr t \<Rightarrow>
         Inr (Some (VideoData play (if truthy t then t else JStr (js ''tiktok_video'')))))
      else Inr None)"

text \<open>Lines 43 to 57: the play test first, the message test only when it fails.\<close>

definition inspect :: "jsval \<Rightarrow> exn + videoData option" where
  "inspect data =
     (case check_play data of
        Inl e \<Rightarrow> Inl e
      | Inr (Some v) \<Rightarrow> Inr (Some v)
      | Inr None \<Rightarrow>
         (case get_prop data (js ''msg'') of Inl e \<Rightarrow> Inl e | Inr msg \<Rightarrow> check_msg msg))"

text \<open>
  One pass of the loop body, lines 31 to 60: \<open>Some v\<close> is \<open>return v\<close>, \<open>None\<close> goes on to the
  next endpoint (\<open>continue\<close>, the end of the body, or the \<open>catch\<close>).
\<close>

definition try_endpoint :: "'w env \<Rightarrow> jsstr \<Rightarrow> 'w net \<Rightarrow> videoData option \<times> 'w net" where
  "try_endpoint env apiUrl st =
     (case do_fetch env (api_request apiUrl) st of
        (Rejected e, st1) \<Rightarrow> (None, st1)
      | (Fulfilled res, st1) \<Rightarrow>
          if \<not> ok res then (None, st1)
          else (case res_json res of
                  None \<Rightarrow> (None, st1)
                | Some data \<Rightarrow>
                    (case inspect data of Inl e \<Rightarrow> (None, st1) | Inr r \<Rightarrow> (r, st1))))"

fun endpoints_loop :: "'w env \<Rightarrow> jsstr list \<Rightarrow> 'w net \<Rightarrow> videoData \<times> 'w net" where
  "endpoints_loop env [] st = (NullData, st)"
| "endpoints_loop env (apiUrl # rest) st =
     (case try_endpoint env apiUrl st of
        (Some v, st1) \<Rightarrow> (v, st1)
      | (None, st1) \<Rightarrow> endpoints_loop env rest st1)"

definition tryTikWmAPI :: "'w env \<Rightarrow> jsstr \<Rightarrow> 'w net \<Rightarrow> (exn + videoData) \<times> 'w net" where
  "tryTikWmAPI env url st =
     (case encodeURIComponent url of
        None \<Rightarrow> (Inl (Exn (js ''URI malformed'')), st)
      | Some encoded \<Rightarrow>
          (case endpoints_loop env (endpoints encoded) st of (v, st1) \<Rightarrow> (Inr v, st1)))"

subsection \<open>\<open>downloadTikTokVideo\<close>\<close>

text \<open>The object \<open>downloadTikTokVideo\<close> returns: \<open>success: true\<close> or \<open>success: false\<close>.\<close>

datatype DownloadOutcome =
    Success (out_fileName: jsstr) (out_fullPath: jsstr) (out_title: jsstr)
  | Failure (out_error: jsstr)

definition success :: "DownloadOutcome \<Rightarrow> bool" where
  "success r = (case r of Success f p t \<Rightarrow> True | Failure e \<Rightarrow> False)"

text \<open>
  Lines 90 to 116 under the \<open>catch\<close> of line 118, once \<open>videoData\<close> is the object.
  \<open>title.replace\<close> throws \<open>TypeError\<close> when \<open>title\<close> is not a string. The destination name
  holds no path separator, so \<open>path.basename(fileName)\<close> is that name.
\<close>

definition retrieve ::
  "'w env \<Rightarrow> jsstr \<Rightarrow> jsstr \<Rightarrow> jsval \<Rightarrow> jsval \<Rightarrow> 'w net \<Rightarrow> DownloadOutcome \<times> 'w net" where
  "retrieve env url downloadPath videoUrl title st =
     (case title of
        JStr t \<Rightarrow>
          (let name = destName t (videoId url);
               fileName = path_join env downloadPath name
           in case do_fetch env (media_request videoUrl) st of
                (Rejected e, st1) \<Rightarrow> (Failure (message e), st1)
              | (Fulfilled videoRes, st1) \<Rightarrow>
                  if \<not> ok videoRes
                  then (Failure (js ''Video download failed: '' @ show_nat (res_status videoRes)
                                 @ js '' '' @ res_statusText videoRes), st1)
                  else (case do_pipeline env videoRes fileName st1 of
                          (Some e, st2) \<Rightarrow> (Failure (message e), st2)
                        | (None, st2) \<Rightarrow> (Success name fileName t, st2)))
      | _ \<Rightarrow> (Failure (js ''title.replace is not a function''), st))"

definition downloadTikTokVideo ::
  "'w env \<Rightarrow> jsstr \<Rightarrow> jsstr \<Rightarrow> 'w net \<Rightarrow> DownloadOutcome \<times> 'w net" where
  "downloadTikTokVideo env url downloadPath st =
     (case testNetworkConnectivity env st of (networkOk, st1) \<Rightarrow>
      if \<not> networkOk then (Failure (js ''Network connectivity issues detected''), st1)
      else
        (case tryTikWmAPI env url st1 of
           (Inl e, st2) \<Rightarrow> (Failure (message e), st2)
         | (Inr PRIVATE, st2) \<Rightarrow>
             (Failure (js ''This video is private or friends-only and cannot be downloaded''), st2)
         | (Inr NOT_FOUND, st2) \<Rightarrow>
             (Failure (js ''Video not found. It may have been deleted or the URL is incorrect''),
              st2)
         | (Inr NullData, st2) \<Rightarrow>
             (Failure (js ''Failed to fetch video data from all APIs''), st2)
         | (Inr (VideoData videoUrl title), st2) \<Rightarrow>
             retrieve env url downloadPath videoUrl title st2))"

subsection \<open>The loop of the \<open>/api/download\<close> handler\<close>

text \<open>An element of \<open>results\<close>: \<open>{ url: url.trim(), ...result }\<close>.\<close>

record entry =
  entry_url :: jsstr
  entry_outcome :: DownloadOutcome

text \<open>One pass of the loop body, lines 190 to 202: the element pushed onto \<open>results\<close>.\<close>

definition process_url :: "'w env \<Rightarrow> jsstr \<Rightarrow> jsstr \<Rightarrow> 'w net \<Rightarrow> entry \<times> 'w net" where
  "process_url env targetPath url st =
     (if trim url \<noteq> [] \<and> str_includes url (js ''tiktok.com'')
      then (case downloadTikTokVideo env (trim url) targetPath st of
              (result, st1) \<Rightarrow> (\<lparr>entry_url = trim url, entry_outcome = result\<rparr>, st1))
      else (\<lparr>entry_url = trim url, entry_outcome = Failure (js ''Invalid TikTok URL'')\<rparr>, st))"

text \<open>Lines 188 to 203: \<open>results\<close> grows by one element for each \<open>url\<close> of \<open>urls\<close>.\<close>

fun download_loop ::
  "'w env \<Rightarrow> jsstr \<Rightarrow> jsstr list \<Rightarrow> entry list \<Rightarrow> 'w net \<Rightarrow> entry list \<times> 'w net" where
  "download_loop env targetPath [] results st = (results, st)"
| "download_loop env targetPath (url # urls) results st =
     (case process_url env targetPath url st of
        (r, st1) \<Rightarrow> download_loop env targetPath urls (results @ [r]) st1)"

definition download_all ::
  "'w env \<Rightarrow> jsstr \<Rightarrow> jsstr list \<Rightarrow> 'w net \<Rightarrow> entry list \<times> 'w net" where
  "download_all env targetPath urls st = download_loop env targetPath urls [] st"

section \<open>index.mjs\<close>

subsection \<open>\<open>testNetworkConnectivity\<close>\<close>

text \<open>
  \<open>try { ...; if (testResponse.ok) { return true } } catch (error) { return false }\<close>:
  with a response that is not \<open>ok\<close> the function ends without a \<open>return\<close>.
\<close>

definition index_testNetworkConnectivity :: "'w env \<Rightarrow> 'w net \<Rightarrow> jsval \<times> 'w net" where
  "index_testNetworkConnectivity env st =
     (case do_fetch env probe_request st of
        (Rejected e, st1) \<Rightarrow> (JBool False, st1)
      | (Fulfilled testResponse, st1) \<Rightarrow>
          if ok testResponse then (JBool True, st1) else (JUndefined, st1))"

subsection \<open>\<open>tryTikWmAPI\<close>\<close>

text \<open>The loop body, lines 44 to 71: as in server.mjs without the test of \<open>data.msg\<close>.\<close>

definition index_try_endpoint :: "'w env \<Rightarrow> jsstr \<Rightarrow> 'w net \<Rightarrow> videoData option \<times> 'w net" where
  "index_try_endpoint env apiUrl st =
     (case do_fetch env (api_request apiUrl) st of
        (Rejected e, st1) \<Rightarrow> (None, st1)
      | (Fulfilled res, st1) \<Rightarrow>
          if \<not> ok res then (None, st1)
          else (case res_json res of
                  None \<Rightarrow> (None, st1)
                | Some data \<Rightarrow>
                    (case check_play data of Inl e \<Rightarrow> (None, st1) | Inr r \<Rightarrow> (r, st1))))"

fun index_endpoints_loop :: "'w env \<Rightarrow> jsstr list \<Rightarrow> 'w net \<Rightarrow> videoData \<times> 'w net" where
  "index_endpoints_loop env [] st = (NullData, st)"
| "index_endpoints_loop env (apiUrl # rest) st =
     (case index_try_endpoint env apiUrl st of
        (Some v, st1) \<Rightarrow> (v, st1)
      | (None, st1) \<Rightarrow> index_endpoints_loop env rest st1)"

definition index_tryTikWmAPI :: "'w env \<Rightarrow> jsstr \<Rightarrow> 'w net \<Rightarrow> (exn + videoData) \<times> 'w net" where
  "index_tryTikWmAPI env url st =
     (case encodeURIComponent url of
        None \<Rightarrow> (Inl (Exn (js ''URI malformed'')), st)
      | Some encoded \<Rightarrow>
          (case index_endpoints_loop env (endpoints encoded) st of (v, st1) \<Rightarrow> (Inr v, st1)))"

subsection \<open>\<open>tryAlternativeAPI\<close>\<close>

definition possibleVideoUrls :: "jsstr \<Rightarrow> jsstr list" where
  "possibleVideoUrls vid =
     [js ''https://v16-webapp.tiktok.com/video/tos/maliva/'' @ vid @ js ''/'',
      js ''https://v19-webapp.tiktok.com/video/tos/maliva/'' @ vid @ js ''/'']"

text \<open>\<open>response.ok && response.headers.get('content-type')?.includes('video')\<close>\<close>

definition is_video :: "response \<Rightarrow> bool" where
  "is_video response =
     (ok response \<and>
      (case res_content_type response of None \<Rightarrow> False | Some ct \<Rightarrow> str_includes ct (js ''video'')))"

text \<open>The inner loop body, lines 96 to 110.\<close>

definition try_candidate ::
  "'w env \<Rightarrow> jsstr \<Rightarrow> jsstr \<Rightarrow> 'w net \<Rightarrow> videoData option \<times> 'w net" where
  "try_candidate env vid testUrl st =
     (case do_fetch env (head_request testUrl) st of
        (Rejected e, st1) \<Rightarrow> (None, st1)
      | (Fulfilled response, st1) \<Rightarrow>
          if is_video response
          then (Some (VideoData (JStr testUrl) (JStr (js ''tiktok_'' @ vid))), st1)
          else (None, st1))"

fun candidates_loop ::
  "'w env \<Rightarrow> jsstr \<Rightarrow> jsstr list \<Rightarrow> 'w net \<Rightarrow> videoData \<times> 'w net" where
  "candidates_loop env vid [] st = (NullData, st)"
| "candidates_loop env vid (testUrl # rest) st =
     (case try_candidate env vid testUrl st of
        (Some v, st1) \<Rightarrow> (v, st1)
      | (None, st1) \<Rightarrow> candidates_loop env vid rest st1)"

text \<open>
  The \<open>Error\<close> thrown when the URL has no video id is caught by the function's own \<open>catch\<close>,
  which returns \<open>null\<close>.
\<close>

definition tryAlternativeAPI :: "'w env \<Rightarrow> jsstr \<Rightarrow> 'w net \<Rightarrow> videoData \<times> 'w net" where
  "tryAlternativeAPI env url st =
     (case match_video url of
        None \<Rightarrow> (NullData, st)
      | Some vid \<Rightarrow> candidates_loop env vid (possibleVideoUrls vid) st)"

subsection \<open>\<open>downloadTikTok\<close>\<close>

text \<open>
  \<open>downloadTikTok\<close> returns nothing; what the model keeps of its console output is the
  place where it ended: the \<open>return\<close> of line 128, the \<open>return\<close> of line 147, the success
  line 173 with the file written, or the \<open>catch\<close> of line 175 with the error caught.
\<close>

datatype cli_exit =
    NetworkIssues
  | AllMethodsFailed
  | Downloaded jsstr
  | ErrorCaught exn

text \<open>Lines 150 to 173 under the \<open>catch\<close> of line 175, with \<open>videoData\<close> the object.\<close>

definition index_retrieve ::
  "'w env \<Rightarrow> jsstr \<Rightarrow> jsstr \<Rightarrow> jsval \<Rightarrow> jsval \<Rightarrow> 'w net \<Rightarrow> cli_exit \<times> 'w net" where
  "index_retrieve env dirname url videoUrl title st =
     (case title of
        JStr t \<Rightarrow>
          (let fileName = path_join env dirname (destName t (videoId url))
           in case do_fetch env (media_request videoUrl) st of
                (Rejected e, st1) \<Rightarrow> (ErrorCaught e, st1)
              | (Fulfilled videoRes, st1) \<Rightarrow>
                  if \<not> ok videoRes
                  then (ErrorCaught (Exn (js ''Video download failed: ''
                          @ show_nat (res_status videoRes) @ js '' ''
                          @ res_statusText videoRes)), st1)
                  else (case do_pipeline env videoRes fileName st1 of
                          (Some e, st2) \<Rightarrow> (ErrorCaught e, st2)
                        | (None, st2) \<Rightarrow> (Downloaded fileName, st2)))
      | _ \<Rightarrow> (ErrorCaught (Exn (js ''title.replace is not a function'')), st))"

text \<open>
  Lines 140 to 173, from the second \<open>if (!videoData)\<close> on. The two strings cannot reach
  this place from the functions above; destructuring a string gives \<open>undefined\<close> for
  \<open>title\<close>.
\<close>

definition index_finish ::
  "'w env \<Rightarrow> jsstr \<Rightarrow> jsstr \<Rightarrow> videoData \<Rightarrow> 'w net \<Rightarrow> cli_exit \<times> 'w net" where
  "index_finish env dirname url videoData st =
     (case videoData of
        NullData \<Rightarrow> (AllMethodsFailed, st)
      | VideoData videoUrl title \<Rightarrow> index_retrieve env dirname url videoUrl title st
      | _ \<Rightarrow> (ErrorCaught (Exn (js ''Cannot read properties of undefined'')), st))"

definition downloadTikTok :: "'w env \<Rightarrow> jsstr \<Rightarrow> jsstr \<Rightarrow> 'w net \<Rightarrow> cli_exit \<times> 'w net" where
  "downloadTikTok env dirname url st =
     (case index_testNetworkConnectivity env st of (networkOk, st1) \<Rightarrow>
      if \<not> truthy networkOk then (NetworkIssues, st1)
      else
        (case index_tryTikWmAPI env url st1 of
           (Inl e, st2) \<Rightarrow> (ErrorCaught e, st2)
         | (Inr videoData, st2) \<Rightarrow>
             (case (if videoData = NullData then tryAlternativeAPI env url st2
                    else (videoData, st2)) of
                (videoData', st3) \<Rightarrow> index_finish env dirname url videoData' st3)))"

section \<open>The specification's words\<close>

text \<open>
  The definitions of this section follow the specification, not the code; the theorems
  compare them with the functions above.
\<close>

text \<open>The field \<open>k\<close> of a JSON object; \<open>undefined\<close> when it is absent or \<open>v\<close> is no object.\<close>

definition field :: "jsval \<Rightarrow> jsstr \<Rightarrow> jsval" where
  "field v k =
     (case v of
        JObj kvs \<Rightarrow> (case map_of kvs k of Some x \<Rightarrow> x | None \<Rightarrow> JUndefined)
      | _ \<Rightarrow> JUndefined)"

text \<open>The payload contains a play URL: its \<open>data.play\<close> holds a truthy value.\<close>

definition has_play :: "jsval \<Rightarrow> bool" where
  "has_play data = truthy (field (field data (js ''data'')) (js ''play''))"

text \<open>The resolution a payload with a play URL gives: the title when one is there (truthy).\<close>

definition resolved :: "jsval \<Rightarrow> videoData" where
  "resolved data =
     VideoData (field (field data (js ''data'')) (js ''play''))
       (if truthy (field (field data (js ''data'')) (js ''title''))
        then field (field data (js ''data'')) (js ''title'')
        else JStr (js ''tiktok_video''))"

text \<open>
  What one endpoint's answer means for the chain: \<open>None\<close> is an abstention. \<open>terminal\<close> is
  the classification of the payload's message, consulted only when there is no play URL.
\<close>

definition spec_outcome :: "(jsval \<Rightarrow> videoData option) \<Rightarrow> fetch_result \<Rightarrow> videoData option" where
  "spec_outcome terminal r =
     (case r of
        Rejected e \<Rightarrow> None
      | Fulfilled res \<Rightarrow>
          if \<not> ok res then None
          else (case res_json res of
                  None \<Rightarrow> None
                | Some data \<Rightarrow>
                    if has_play data then Some (resolved data)
                    else terminal (field data (js ''msg''))))"

text \<open>
  The chain: the requests go out in the order of the list, the first answer that is not
  an abstention ends it, and with the list exhausted the result is unresolved.
\<close>

fun spec_chain ::
  "('a \<Rightarrow> request) \<Rightarrow> ('a \<Rightarrow> fetch_result \<Rightarrow> videoData option) \<Rightarrow> 'w env \<Rightarrow> 'a list \<Rightarrow> 'w net
   \<Rightarrow> videoData \<times> 'w net" where
  "spec_chain mk outcome env [] st = (NullData, st)"
| "spec_chain mk outcome env (a # rest) st =
     (case do_fetch env (mk a) st of
        (r, st1) \<Rightarrow>
          (case outcome a r of
             Some v \<Rightarrow> (v, st1)
           | None \<Rightarrow> spec_chain mk outcome env rest st1))"

text \<open>
  The classifier as the specification words it, for a message that is a string: the
  substrings are looked for without regard to case.
\<close>

definition to_lower :: "jschar \<Rightarrow> jschar" where
  "to_lower c = (if is_upper c then c + 0x20 else c)"

definition spec_classify :: "jsstr \<Rightarrow> videoData option" where
  "spec_classify m =
     (let l = map to_lower m
      in if str_includes l (js ''private'') \<or> str_includes l (js ''friends'') then Some PRIVATE
         else if str_includes l (js ''not found'') \<or> str_includes l (js ''deleted'')
         then Some NOT_FOUND
         else None)"

text \<open>The fallback prober's reading of a \<open>HEAD\<close> answer.\<close>

definition spec_candidate :: "jsstr \<Rightarrow> jsstr \<Rightarrow> fetch_result \<Rightarrow> videoData option" where
  "spec_candidate vid candidate r =
     (case r of
        Rejected e \<Rightarrow> None
      | Fulfilled res \<Rightarrow>
          if is_video res then Some (VideoData (JStr candidate) (JStr (js ''tiktok_'' @ vid)))
          else None)"

section \<open>Scripted environments\<close>

text \<open>
  A world that answers the requests from a script, in order, and refuses the connection
  once the script is used up; \<open>p\<close> is what writing the file gives.
\<close>

definition scripted :: "exn option \<Rightarrow> (fetch_result list) env" where
  "scripted p =
     \<lparr>fetch = (\<lambda>req w. case w of [] \<Rightarrow> (Rejected (Exn (js ''fetch failed'')), [])
                                | r # rs \<Rightarrow> (r, rs)),
      pipeline = (\<lambda>res file w. (p, w)),
      path_join = (\<lambda>dir name. dir @ js ''/'' @ name)\<rparr>"

definition start :: "fetch_result list \<Rightarrow> (fetch_result list) net" where
  "start script = \<lparr>world = script, log = []\<rparr>"

definition reply :: "nat \<Rightarrow> jsstr option \<Rightarrow> jsval option \<Rightarrow> fetch_result" where
  "reply code ct body =
     Fulfilled \<lparr>res_status = code, res_statusText = [], res_content_type = ct, res_json = body\<rparr>"

text \<open>A payload that resolves: a play URL and a title.\<close>

definition demo_payload :: jsval where
  "demo_payload =
     JObj [(js ''data'', JObj [(js ''play'', JStr (js ''https://cdn/x.mp4'')),
                               (js ''title'', JStr (js ''Hello! World??''))])]"

section \<open>Strings: what the functions compute\<close>

lemmas str_defs = js_def is_digit_def is_upper_def is_lower_def in_class_def

lemma str_includes_sublist: "str_includes s t \<longleftrightarrow> sublist t s"
  by (induction s) (auto simp: sublist_Cons_right)

lemma sublist_middle: "sublist b (a @ b @ c)"
  by (auto simp: sublist_def)

lemma match_video_None: "match_video url = None \<longleftrightarrow> \<not> (\<exists>a d b. url = a @ js ''video/'' @ d # b \<and> is_digit d)"
proof (induction url)
  case Nil
  then show ?case by (simp add: js_def)
next
  case (Cons c s)
  have len: "length (js ''video/'') = 6" by (simp add: js_def)
  have here: "(prefix (js ''video/'') (c # s) \<and> takeWhile is_digit (drop 6 (c # s)) \<noteq> []) \<longleftrightarrow>
        (\<exists>d b. c # s = js ''video/'' @ d # b \<and> is_digit d)" (is "?L \<longleftrightarrow> ?R")
  proof
    assume ?L
    then have tw: "takeWhile is_digit (drop 6 (c # s)) \<noteq> []" by blast
    from \<open>?L\<close> obtain r where r: "c # s = js ''video/'' @ r"
      unfolding prefix_def by blast
    from r len have "drop 6 (c # s) = r" by (metis append_eq_conv_conj)
    with tw obtain d b where "r = d # b" "is_digit d"
      by (cases r) (auto split: if_splits)
    with r show ?R by blast
  next
    assume ?R
    then obtain d b where r: "c # s = js ''video/'' @ d # b" and d: "is_digit d" by blast
    from r len have "drop 6 (c # s) = d # b" by (metis append_eq_conv_conj)
    with r d show ?L by (auto simp: prefix_def)
  qed
  have split: "(\<exists>a d b. c # s = a @ js ''video/'' @ d # b \<and> is_digit d) \<longleftrightarrow>
      (\<exists>d b. c # s = js ''video/'' @ d # b \<and> is_digit d) \<or> (\<exists>a d b. s = a @ js ''video/'' @ d # b \<and> is_digit d)"
    (is "?A \<longleftrightarrow> ?B \<or> ?C")
  proof
    assume ?A
    then obtain a d b where e: "c # s = a @ js ''video/'' @ d # b" and d: "is_digit d" by blast
    show "?B \<or> ?C"
    proof (cases a)
      case Nil
      with e d show ?thesis by auto
    next
      case (Cons x a')
      with e have "s = a' @ js ''video/'' @ d # b" by simp
      with d show ?thesis by blast
    qed
  next
    assume "?B \<or> ?C"
    then show ?A
    proof
      assume ?B
      then obtain d b where "c # s = [] @ js ''video/'' @ d # b" "is_digit d" by auto
      then show ?A by blast
    next
      assume ?C
      then obtain a d b where "s = a @ js ''video/'' @ d # b" "is_digit d" by blast
      then have "c # s = (c # a) @ js ''video/'' @ d # b" by simp
      with \<open>is_digit d\<close> show ?A by blast
    qed
  qed
  show ?case
    using Cons.IH here split by (simp del: prefix_code)
qed

lemma match_video_Some:
  "match_video url = Some vid \<Longrightarrow>
   vid \<noteq> [] \<and> (\<forall>c \<in> set vid. is_digit c) \<and> sublist (js ''video/'' @ vid) url"
proof (induction url)
  case Nil
  then show ?case by simp
next
  case (Cons c s)
  let ?here = "prefix (js ''video/'') (c # s) \<and> takeWhile is_digit (drop 6 (c # s)) \<noteq> []"
  show ?case
  proof (cases ?here)
    case True
    with Cons.prems have vid: "vid = takeWhile is_digit (drop 6 (c # s))"
      by (simp del: prefix_code)
    from True obtain r where r: "c # s = js ''video/'' @ r" unfolding prefix_def by blast
    have "length (js ''video/'') = 6" by (simp add: js_def)
    with r have "drop 6 (c # s) = r" by (metis append_eq_conv_conj)
    with vid have "r = vid @ dropWhile is_digit r" by simp
    with r have "c # s = [] @ (js ''video/'' @ vid) @ dropWhile is_digit r" by simp
    then have "sublist (js ''video/'' @ vid) (c # s)" unfolding sublist_def by blast
    moreover from vid True have "vid \<noteq> []" by simp
    moreover from vid have "\<forall>c \<in> set vid. is_digit c" by (auto dest: set_takeWhileD)
    ultimately show ?thesis by blast
  next
    case False
    with Cons.prems have "match_video s = Some vid"
      by (auto simp del: prefix_code split: if_splits)
    from Cons.IH [OF this] show ?thesis by (auto simp: sublist_Cons_right)
  qed
qed

lemma videoId_placeholder:
  "\<not> (\<exists>a d b. url = a @ js ''video/'' @ d # b \<and> is_digit d) \<Longrightarrow> videoId url = js ''tiktok_video''"
  using match_video_None [of url] by (simp add: videoId_def)

section \<open>The payload and the chain against the specification\<close>

lemma get_prop_field: "v \<noteq> JNull \<Longrightarrow> v \<noteq> JUndefined \<Longrightarrow> get_prop v k = Inr (field v k)"
  by (cases v) (simp_all add: field_def)

lemma truthy_defined: "truthy v \<Longrightarrow> v \<noteq> JNull \<and> v \<noteq> JUndefined"
  by (cases v) simp_all

lemma field_falsy: "\<not> truthy v \<Longrightarrow> field v k = JUndefined"
  by (cases v) (simp_all add: field_def)

lemma check_play_spec:
  "data \<noteq> JNull \<Longrightarrow> data \<noteq> JUndefined \<Longrightarrow>
   check_play data = Inr (if has_play data then Some (resolved data) else None)"
proof -
  assume d: "data \<noteq> JNull" "data \<noteq> JUndefined"
  let ?d = "field data (js ''data'')"
  show ?thesis
  proof (cases "truthy ?d")
    case True
    then have "get_prop ?d k = Inr (field ?d k)" for k
      using truthy_defined get_prop_field by blast
    with True d show ?thesis
      by (simp add: check_play_def get_prop_field has_play_def resolved_def)
  next
    case False
    then have "field ?d k = JUndefined" for k by (rule field_falsy)
    with False d show ?thesis
      by (simp add: check_play_def get_prop_field has_play_def)
  qed
qed

lemma check_play_null: "data = JNull \<or> data = JUndefined \<Longrightarrow> \<exists>e. check_play data = Inl e"
  by (auto simp: check_play_def)

lemma has_play_defined: "has_play data \<Longrightarrow> data \<noteq> JNull \<and> data \<noteq> JUndefined"
  by (auto simp: has_play_def field_def)

lemma inspect_spec:
  "(case inspect data of Inl e \<Rightarrow> None | Inr r \<Rightarrow> r) =
   (if has_play data then Some (resolved data) else terminal_class (field data (js ''msg'')))"
proof (cases "data = JNull \<or> data = JUndefined")
  case True
  then obtain e where "check_play data = Inl e" using check_play_null by blast
  moreover from True have "\<not> has_play data" using has_play_defined by blast
  moreover from True have "field data (js ''msg'') = JUndefined" by (auto simp: field_def)
  ultimately show ?thesis by (simp add: inspect_def terminal_class_def check_msg_def)
next
  case False
  then have "check_play data = Inr (if has_play data then Some (resolved data) else None)"
    by (simp add: check_play_spec)
  moreover from False have "get_prop data (js ''msg'') = Inr (field data (js ''msg''))"
    by (simp add: get_prop_field)
  ultimately show ?thesis
    by (simp add: inspect_def terminal_class_def split: sum.splits option.splits)
qed

lemma index_inspect_spec:
  "(case check_play data of Inl e \<Rightarrow> None | Inr r \<Rightarrow> r) =
   (if has_play data then Some (resolved data) else None)"
proof (cases "data = JNull \<or> data = JUndefined")
  case True
  then obtain e where "check_play data = Inl e" using check_play_null by blast
  moreover from True have "\<not> has_play data" using has_play_defined by blast
  ultimately show ?thesis by simp
next
  case False
  then show ?thesis by (simp add: check_play_spec)
qed

lemma try_endpoint_spec:
  "try_endpoint env a st =
   (case do_fetch env (api_request a) st of (r, st1) \<Rightarrow> (spec_outcome terminal_class r, st1))"
proof -
  obtain r st1 where f: "do_fetch env (api_request a) st = (r, st1)" by (cases "do_fetch env (api_request a) st")
  show ?thesis
  proof (cases r)
    case (Rejected e)
    with f show ?thesis by (simp add: try_endpoint_def spec_outcome_def)
  next
    case (Fulfilled res)
    show ?thesis
    proof (cases "res_json res")
      case None
      with f Fulfilled show ?thesis by (simp add: try_endpoint_def spec_outcome_def)
    next
      case (Some data)
      with f Fulfilled inspect_spec [of data] show ?thesis
        by (auto simp: try_endpoint_def spec_outcome_def split: sum.splits if_splits)
    qed
  qed
qed

lemma index_try_endpoint_spec:
  "index_try_endpoint env a st =
   (case do_fetch env (api_request a) st of (r, st1) \<Rightarrow> (spec_outcome (\<lambda>m. None) r, st1))"
proof -
  obtain r st1 where f: "do_fetch env (api_request a) st = (r, st1)" by (cases "do_fetch env (api_request a) st")
  show ?thesis
  proof (cases r)
    case (Rejected e)
    with f show ?thesis by (simp add: index_try_endpoint_def spec_outcome_def)
  next
    case (Fulfilled res)
    show ?thesis
    proof (cases "res_json res")
      case None
      with f Fulfilled show ?thesis by (simp add: index_try_endpoint_def spec_outcome_def)
    next
      case (Some data)
      with f Fulfilled index_inspect_spec [of data] show ?thesis
        by (auto simp: index_try_endpoint_def spec_outcome_def split: sum.splits if_splits)
    qed
  qed
qed

lemma endpoints_loop_spec:
  "endpoints_loop env eps st = spec_chain api_request (\<lambda>a. spec_outcome terminal_class) env eps st"
  by (induction eps arbitrary: st) (auto simp: try_endpoint_spec split: prod.splits option.splits)

lemma index_endpoints_loop_spec:
  "index_endpoints_loop env eps st = spec_chain api_request (\<lambda>a. spec_outcome (\<lambda>m. None)) env eps st"
  by (induction eps arbitrary: st) (auto simp: index_try_endpoint_spec split: prod.splits option.splits)

lemma do_fetch_log: "do_fetch env req st = (r, st1) \<Longrightarrow> log st1 = log st @ [req]"
  by (auto simp: do_fetch_def split: prod.splits)

lemma spec_chain_log:
  "\<exists>k \<le> length eps. log (snd (spec_chain mk outcome env eps st)) = log st @ map mk (take k eps)"
proof (induction eps arbitrary: st)
  case Nil
  then show ?case by simp
next
  case (Cons a rest)
  obtain r st1 where f: "do_fetch env (mk a) st = (r, st1)" by (cases "do_fetch env (mk a) st")
  then have l: "log st1 = log st @ [mk a]" by (rule do_fetch_log)
  show ?case
  proof (cases "outcome a r")
    case None
    from Cons.IH [of st1] obtain k where "k \<le> length rest"
      "log (snd (spec_chain mk outcome env rest st1)) = log st1 @ map mk (take k rest)" by blast
    with f None l have "Suc k \<le> length (a # rest) \<and>
       log (snd (spec_chain mk outcome env (a # rest) st)) = log st @ map mk (take (Suc k) (a # rest))"
      by simp
    then show ?thesis by blast
  next
    case (Some v)
    with f l have "Suc 0 \<le> length (a # rest) \<and>
       log (snd (spec_chain mk outcome env (a # rest) st)) = log st @ map mk (take (Suc 0) (a # rest))"
      by simp
    then show ?thesis by blast
  qed
qed

lemma check_msg_str:
  "check_msg (JStr m) =
   Inr (if sublist (js ''private'') m \<or> sublist (js ''friends'') m then Some PRIVATE
        else if sublist (js ''not found'') m \<or> sublist (js ''deleted'') m then Some NOT_FOUND
        else None)"
proof (cases "m = []")
  case True
  then show ?thesis by (simp add: check_msg_def js_def)
next
  case False
  then show ?thesis by (simp add: check_msg_def str_includes_sublist)
qed

section \<open>C1: the destination file name\<close>

text \<open>
  C1, as amended. For every title string and id string: the sanitized title has the length
  of the title, at most 50, so a title of 50 or more code units (one of 300, say) is cut
  to 50; each of its code units is the title's when that is in \<open>[A-Za-z0-9_-]\<close> and
  \<open>_\<close> otherwise (the character is replaced, not removed); and the destination name is the
  sanitized title followed by \<open>_\<close>, the id and \<open>.mp4\<close>.
\<close>

theorem sanitized_name:
  "length (sanitizedTitle title) = min 50 (length title)
   \<and> (\<forall>i < length (sanitizedTitle title).
         sanitizedTitle title ! i = (if in_class (title ! i) then title ! i else 0x5F))
   \<and> (50 \<le> length title \<longrightarrow> length (sanitizedTitle title) = 50)
   \<and> destName title vid = sanitizedTitle title @ js ''_'' @ vid @ js ''.mp4''"
  by (simp add: sanitizedTitle_def destName_def)

theorem sanitized_name_witness:
  "length (sanitizedTitle (replicate 300 0x21)) = 50
   \<and> destName (js ''Hello! World??'') (js ''123'') = js ''Hello__World___123.mp4''"
  using sanitized_name [of "replicate 300 0x21" "js ''123''"]
        sanitized_name [of "js ''Hello! World??''" "js ''123''"]
  by (simp add: sanitizedTitle_def str_defs)

text \<open>
  C1 as the specification states it fails at its own example: the title
  \<open>Hello! World??\<close> with the id \<open>123\<close> does not give \<open>Hello_World_123.mp4\<close>.
\<close>

theorem sanitized_name_counterexample:
  "destName (js ''Hello! World??'') (js ''123'') \<noteq> js ''Hello_World_123.mp4''"
  by (simp add: destName_def sanitizedTitle_def str_defs)

section \<open>Evaluating the model on a script\<close>

lemmas script_defs = scripted_def start_def reply_def do_fetch_def do_pipeline_def ok_def
  probe_request_def api_request_def media_request_def head_request_def

lemmas server_defs = download_all_def process_url_def downloadTikTokVideo_def
  testNetworkConnectivity_def tryTikWmAPI_def endpoints_def try_endpoint_def inspect_def
  check_play_def check_msg_def retrieve_def destName_def sanitizedTitle_def videoId_def trim_def is_space_def
  uri_unreserved_def is_low_surrogate_def is_high_surrogate_def escape_def utf8_def percent_def hex_digit_def Let_def

lemmas uri_defs = uri_unreserved_def is_low_surrogate_def is_high_surrogate_def escape_def utf8_def percent_def hex_digit_def

section \<open>C2: the error classifier\<close>

text \<open>
  C2, as amended. For every provider message that is a string, server.mjs matches
  substrings with regard to case: \<open>private\<close> or \<open>friends\<close> gives \<open>PRIVATE\<close>; failing that,
  \<open>not found\<close> or \<open>deleted\<close> gives \<open>NOT_FOUND\<close>; otherwise the message classifies nothing.
  When an endpoint answers 2xx with a payload that has no play URL and such a message, a
  \<open>PRIVATE\<close> or \<open>NOT_FOUND\<close> classification ends the chain with that one request, no further
  endpoint being consulted, and an unclassified message lets the chain go on to the
  remaining endpoints.
\<close>

theorem classifier_case_sensitive:
  assumes "do_fetch env (api_request a) st = (Fulfilled res, st1)"
    and "ok res" and "res_json res = Some data"
    and "\<not> has_play data" and "field data (js ''msg'') = JStr m"
  shows "check_msg (JStr m) =
           Inr (if sublist (js ''private'') m \<or> sublist (js ''friends'') m then Some PRIVATE
                else if sublist (js ''not found'') m \<or> sublist (js ''deleted'') m
                then Some NOT_FOUND
                else None)
       \<and> (sublist (js ''private'') m \<or> sublist (js ''friends'') m \<longrightarrow>
            endpoints_loop env (a # rest) st = (PRIVATE, st1)
            \<and> log st1 = log st @ [api_request a])
       \<and> (\<not> (sublist (js ''private'') m \<or> sublist (js ''friends'') m)
          \<and> (sublist (js ''not found'') m \<or> sublist (js ''deleted'') m) \<longrightarrow>
            endpoints_loop env (a # rest) st = (NOT_FOUND, st1)
            \<and> log st1 = log st @ [api_request a])
       \<and> (\<not> (sublist (js ''private'') m \<or> sublist (js ''friends'') m)
          \<and> \<not> (sublist (js ''not found'') m \<or> sublist (js ''deleted'') m) \<longrightarrow>
            endpoints_loop env (a # rest) st = endpoints_loop env rest st1)"
proof -
  have t: "try_endpoint env a st = (terminal_class (JStr m), st1)"
    using assms by (simp add: try_endpoint_spec spec_outcome_def)
  have l: "log st1 = log st @ [api_request a]"
    using assms(1) by (rule do_fetch_log)
  show ?thesis
    using t l by (simp add: check_msg_str terminal_class_def)
qed

theorem classifier_case_sensitive_witness:
  "endpoints_loop (scripted None) [js ''first'', js ''second'']
     (start [reply 200 None (Some (JObj [(js ''msg'', JStr (js ''This video is private''))])),
             reply 200 None (Some demo_payload)])
   = (PRIVATE, \<lparr>world = [reply 200 None (Some demo_payload)],
                log = [api_request (js ''first'')]\<rparr>)"
proof -
  let ?data = "JObj [(js ''msg'', JStr (js ''This video is private''))]"
  let ?res = "\<lparr>res_status = 200, res_statusText = [], res_content_type = None,
               res_json = Some ?data\<rparr>"
  let ?st = "start [reply 200 None (Some ?data), reply 200 None (Some demo_payload)]"
  let ?st1 = "\<lparr>world = [reply 200 None (Some demo_payload)],
               log = [api_request (js ''first'')]\<rparr>"
  have h1: "do_fetch (scripted None) (api_request (js ''first'')) ?st = (Fulfilled ?res, ?st1)"
    by (simp add: do_fetch_def scripted_def start_def reply_def)
  have h2: "ok ?res" by (simp add: ok_def)
  have h3: "res_json ?res = Some ?data" by simp
  have h4: "\<not> has_play ?data" by (simp add: has_play_def field_def js_def)
  have h5: "field ?data (js ''msg'') = JStr (js ''This video is private'')"
    by (simp add: field_def)
  have s: "sublist (js ''private'') (js ''This video is private'')"
    by (simp add: str_includes_sublist [symmetric] js_def)
  from classifier_case_sensitive [OF h1 h2 h3 h4 h5, of "[js ''second'']"] s
  show ?thesis by blast
qed

text \<open>
  C2 as the specification states it fails on a capital letter: matched without regard to
  case, \<open>This video is Private\<close> is private; server.mjs classifies nothing.
\<close>

theorem classifier_case_sensitive_counterexample:
  "spec_classify (js ''This video is Private'') = Some PRIVATE
   \<and> check_msg (JStr (js ''This video is Private'')) = Inr None"
  by (simp add: spec_classify_def to_lower_def check_msg_def str_defs)

section \<open>C3: the batch loop\<close>

lemma download_loop_acc:
  "download_loop env p urls acc st =
   (case download_loop env p urls [] st of (rs, st') \<Rightarrow> (acc @ rs, st'))"
proof (induction urls arbitrary: acc st)
  case Nil
  then show ?case by simp
next
  case (Cons u us)
  obtain r st1 where r: "process_url env p u st = (r, st1)" by (cases "process_url env p u st")
  from Cons.IH [of "acc @ [r]" st1] Cons.IH [of "[r]" st1] r show ?case
    by (simp split: prod.splits)
qed

lemma download_all_Nil: "download_all env p [] st = ([], st)"
  by (simp add: download_all_def)

lemma download_all_Cons:
  "download_all env p (u # us) st =
   (fst (process_url env p u st) # fst (download_all env p us (snd (process_url env p u st))),
    snd (download_all env p us (snd (process_url env p u st))))"
proof -
  obtain r st1 where r: "process_url env p u st = (r, st1)" by (cases "process_url env p u st")
  with download_loop_acc [of env p us "[r]" st1] show ?thesis
    by (simp add: download_all_def split: prod.splits)
qed

lemma process_url_url: "entry_url (fst (process_url env p u st)) = trim u"
  by (simp add: process_url_def split: prod.splits)

lemma download_all_length: "length (fst (download_all env p urls st)) = length urls"
  by (induction urls arbitrary: st) (simp_all add: download_all_Nil download_all_Cons)

lemma download_all_urls: "map entry_url (fst (download_all env p urls st)) = map trim urls"
  by (induction urls arbitrary: st)
     (simp_all add: download_all_Nil download_all_Cons process_url_url)

lemma download_all_nth:
  "i < length urls \<Longrightarrow>
   fst (download_all env p urls st) ! i =
   fst (process_url env p (urls ! i) (snd (download_all env p (take i urls) st)))"
proof (induction urls arbitrary: i st)
  case Nil
  then show ?case by simp
next
  case (Cons u us)
  show ?case
  proof (cases i)
    case 0
    then show ?thesis by (simp add: download_all_Cons download_all_Nil)
  next
    case (Suc j)
    with Cons.prems have "j < length us" by simp
    from Cons.IH [OF this] Suc show ?thesis
      by (simp add: download_all_Cons)
  qed
qed

text \<open>
  C3. For every list of URL strings the loop of the \<open>/api/download\<close> handler returns as
  many results as there are URLs, in the order of the URLs (each result carries its
  trimmed URL), and the result at each index is what processing that URL gives in the state
  the earlier URLs left, whatever their outcomes were: no failure stops the loop.
\<close>

theorem batch_result:
  "length (fst (download_all env p urls st)) = length urls
   \<and> map entry_url (fst (download_all env p urls st)) = map trim urls
   \<and> (\<forall>i < length urls.
         fst (download_all env p urls st) ! i =
         fst (process_url env p (urls ! i) (snd (download_all env p (take i urls) st))))"
  by (simp add: download_all_length download_all_urls download_all_nth)



theorem batch_result_witness:
  "map (success \<circ> entry_outcome)
     (fst (download_all (scripted None) (js ''/tmp'')
        [js ''not-a-url'', js ''https://www.tiktok.com/@u/video/111'']
        (start [reply 200 None None, reply 500 None None,
                reply 200 None (Some demo_payload),
                reply 200 None None]))) = [False, True]"
  using batch_result [of "scripted None" "js ''/tmp''"
        "[js ''not-a-url'', js ''https://www.tiktok.com/@u/video/111'']"
        "start [reply 200 None None, reply 500 None None,
                reply 200 None (Some  demo_payload),
                reply 200 None None]"]
  by (simp add: server_defs script_defs str_defs success_def demo_payload_def)

section \<open>C4: a URL without the host marker\<close>

text \<open>
  C4, as amended. For every URL in which \<open>tiktok.com\<close> does not occur, the loop body gives
  the result \<open>success: false\<close> with the error \<open>Invalid TikTok URL\<close> and leaves the state as it
  was: no request is made and the world is not touched.
\<close>

theorem invalid_url:
  "\<not> sublist (js ''tiktok.com'') url \<Longrightarrow>
   process_url env p url st =
     (\<lparr>entry_url = trim url, entry_outcome = Failure (js ''Invalid TikTok URL'')\<rparr>, st)"
  by (simp add: process_url_def str_includes_sublist)

theorem invalid_url_witness:
  "process_url (scripted None) (js ''/tmp'') (js '' not-a-url '') (start [reply 200 None None]) =
     (\<lparr>entry_url = js ''not-a-url'', entry_outcome = Failure (js ''Invalid TikTok URL'')\<rparr>,
      start [reply 200 None None])"
  using invalid_url [of "js '' not-a-url ''" "scripted None" "js ''/tmp''" "start [reply 200 None None]"]
  by (simp add: str_includes_sublist [symmetric] trim_def is_space_def str_defs)

text \<open>C4 as the specification states it names another error text, \<open>Invalid URL\<close>.\<close>

theorem invalid_url_counterexample:
  "entry_outcome (fst (process_url (scripted None) (js ''/tmp'') (js ''not-a-url'') (start [])))
     \<noteq> Failure (js ''Invalid URL'')"
  by (simp add: process_url_def str_defs)

section \<open>C5: the provider chain\<close>

text \<open>
  C5. For every URL that \<open>encodeURIComponent\<close> accepts, \<open>tryTikWmAPI\<close> of both files is the
  chain of the specification over the two endpoints: the requests go out in the order of
  the list; a rejected request, a response that is not 2xx, a body that \<open>json()\<close> rejects
  and a payload without play URL (and, in server.mjs, without terminal classification) are
  abstentions and the next endpoint is tried; the first payload with a play URL ends the
  chain with that payload's data; and with every endpoint abstaining the result is \<open>null\<close>.
  The requests made are a prefix of the endpoint list. Step by step, for the loops of both
  files: an endpoint that abstains hands the rest of the list to the loop, an endpoint
  whose 2xx payload has a play URL ends the loop with the resolution of that payload, and
  the empty list gives \<open>null\<close>.
\<close>

theorem provider_chain:
  assumes "encodeURIComponent url = Some encoded"
  shows "tryTikWmAPI env url st =
           (Inr (fst (spec_chain api_request (\<lambda>a. spec_outcome terminal_class) env
                        (endpoints encoded) st)),
            snd (spec_chain api_request (\<lambda>a. spec_outcome terminal_class) env
                   (endpoints encoded) st))
       \<and> index_tryTikWmAPI env url st =
           (Inr (fst (spec_chain api_request (\<lambda>a. spec_outcome (\<lambda>m. None)) env
                        (endpoints encoded) st)),
            snd (spec_chain api_request (\<lambda>a. spec_outcome (\<lambda>m. None)) env
                   (endpoints encoded) st))
       \<and> (\<exists>k \<le> length (endpoints encoded).
             log (snd (tryTikWmAPI env url st))
               = log st @ map api_request (take k (endpoints encoded)))
       \<and> (\<exists>k \<le> length (endpoints encoded).
             log (snd (index_tryTikWmAPI env url st))
               = log st @ map api_request (take k (endpoints encoded)))
       \<and> (do_fetch env (api_request a) st' = (r, st1)
          \<and> (r = Rejected e
             \<or> r = Fulfilled res
               \<and> (\<not> ok res \<or> res_json res = None
                  \<or> res_json res = Some data \<and> \<not> has_play data
                    \<and> \<not> truthy (field data (js ''msg'')))) \<longrightarrow>
            endpoints_loop env (a # rest) st' = endpoints_loop env rest st1
            \<and> index_endpoints_loop env (a # rest) st' = index_endpoints_loop env rest st1)
       \<and> (do_fetch env (api_request a) st' = (Fulfilled res, st1) \<and> ok res
          \<and> res_json res = Some data \<and> has_play data \<longrightarrow>
            endpoints_loop env (a # rest) st' = (resolved data, st1)
            \<and> index_endpoints_loop env (a # rest) st' = (resolved data, st1))
       \<and> endpoints_loop env [] st' = (NullData, st')
       \<and> index_endpoints_loop env [] st' = (NullData, st')"
proof -
  let ?s = "spec_chain api_request (\<lambda>a. spec_outcome terminal_class) env (endpoints encoded) st"
  let ?i = "spec_chain api_request (\<lambda>a. spec_outcome (\<lambda>m. None)) env (endpoints encoded) st"
  have s: "tryTikWmAPI env url st = (Inr (fst ?s), snd ?s)"
    using assms by (simp add: tryTikWmAPI_def endpoints_loop_spec split: prod.splits)
  have i: "index_tryTikWmAPI env url st = (Inr (fst ?i), snd ?i)"
    using assms by (simp add: index_tryTikWmAPI_def index_endpoints_loop_spec split: prod.splits)
  have ls: "\<exists>k \<le> length (endpoints encoded).
      log (snd (tryTikWmAPI env url st)) = log st @ map api_request (take k (endpoints encoded))"
    using spec_chain_log [of "endpoints encoded" api_request "\<lambda>a. spec_outcome terminal_class" env st] s
    by simp
  have li: "\<exists>k \<le> length (endpoints encoded).
      log (snd (index_tryTikWmAPI env url st)) = log st @ map api_request (take k (endpoints encoded))"
    using spec_chain_log [of "endpoints encoded" api_request "\<lambda>a. spec_outcome (\<lambda>m. None)" env st] i
    by simp
  have ab: "endpoints_loop env (a # rest) st' = endpoints_loop env rest st1
            \<and> index_endpoints_loop env (a # rest) st' = index_endpoints_loop env rest st1"
    if "do_fetch env (api_request a) st' = (r, st1)
          \<and> (r = Rejected e
             \<or> r = Fulfilled res
               \<and> (\<not> ok res \<or> res_json res = None
                  \<or> res_json res = Some data \<and> \<not> has_play data
                    \<and> \<not> truthy (field data (js ''msg''))))"
  proof -
    from that have f: "do_fetch env (api_request a) st' = (r, st1)" by blast
    from that have "spec_outcome terminal_class r = None \<and> spec_outcome (\<lambda>m. None) r = None"
      by (auto simp: spec_outcome_def terminal_class_def check_msg_def)
    with f show ?thesis
      by (simp add: try_endpoint_spec index_try_endpoint_spec)
  qed
  have re: "endpoints_loop env (a # rest) st' = (resolved data, st1)
            \<and> index_endpoints_loop env (a # rest) st' = (resolved data, st1)"
    if "do_fetch env (api_request a) st' = (Fulfilled res, st1) \<and> ok res
          \<and> res_json res = Some data \<and> has_play data"
    using that by (simp add: try_endpoint_spec index_try_endpoint_spec spec_outcome_def)
  from s i ls li ab re show ?thesis by simp
qed

theorem provider_chain_witness:
  "fst (tryTikWmAPI (scripted None) (js ''https://www.tiktok.com/@u/video/111'')
          (start [reply 500 None None, reply 200 None (Some demo_payload)]))
     = Inr (VideoData (JStr (js ''https://cdn/x.mp4'')) (JStr (js ''Hello! World??'')))"
proof -
  let ?url = "js ''https://www.tiktok.com/@u/video/111''"
  let ?enc = "js ''https%3A%2F%2Fwww.tiktok.com%2F%40u%2Fvideo%2F111''"
  let ?st = "start [reply 500 None None, reply 200 None (Some demo_payload)]"
  have e: "encodeURIComponent ?url = Some ?enc"
    by (simp add: uri_defs str_defs)
  have c: "fst (spec_chain api_request (\<lambda>a. spec_outcome terminal_class) (scripted None)
                  (endpoints ?enc) ?st)
           = VideoData (JStr (js ''https://cdn/x.mp4'')) (JStr (js ''Hello! World??''))"
    by (simp add: endpoints_def script_defs spec_outcome_def has_play_def resolved_def
          field_def demo_payload_def js_def)
  from provider_chain [OF e, of "scripted None" ?st] c show ?thesis by simp
qed

section \<open>C6: retrieval errors\<close>

lemma retrieve_success:
  assumes "retrieve env url p videoUrl title st = (Success f fp t, st')"
  shows "\<exists>videoRes st3. title = JStr t \<and> f = destName t (videoId url)
           \<and> fp = path_join env p (destName t (videoId url))
           \<and> do_fetch env (media_request videoUrl) st = (Fulfilled videoRes, st3)
           \<and> ok videoRes
           \<and> do_pipeline env videoRes (path_join env p (destName t (videoId url))) st3 = (None, st')"
proof (cases title)
  case (JStr s)
  obtain r st3 where f: "do_fetch env (media_request videoUrl) st = (r, st3)"
    by (cases "do_fetch env (media_request videoUrl) st")
  show ?thesis
  proof (cases r)
    case (Rejected e)
    with assms JStr f show ?thesis by (simp add: retrieve_def Let_def)
  next
    case (Fulfilled videoRes)
    obtain w st4 where w: "do_pipeline env videoRes (path_join env p (destName s (videoId url))) st3 = (w, st4)"
      by (cases "do_pipeline env videoRes (path_join env p (destName s (videoId url))) st3")
    with assms JStr f Fulfilled show ?thesis
      by (cases w; cases "ok videoRes") (auto simp: retrieve_def Let_def)
  qed
qed (use assms in \<open>simp_all add: retrieve_def\<close>)

lemma download_success:
  assumes "downloadTikTokVideo env url p st = (Success f fp t, st')"
  shows "\<exists>st1 videoUrl st2. testNetworkConnectivity env st = (True, st1)
           \<and> tryTikWmAPI env url st1 = (Inr (VideoData videoUrl (JStr t)), st2)
           \<and> retrieve env url p videoUrl (JStr t) st2 = (Success f fp t, st')"
proof -
  obtain b st1 where pr: "testNetworkConnectivity env st = (b, st1)"
    by (cases "testNetworkConnectivity env st")
  obtain v st2 where ch: "tryTikWmAPI env url st1 = (v, st2)"
    by (cases "tryTikWmAPI env url st1")
  from assms pr have b: "b" by (cases b) (simp_all add: downloadTikTokVideo_def)
  from assms pr ch b obtain videoUrl title where v: "v = Inr (VideoData videoUrl title)"
    and r: "retrieve env url p videoUrl title st2 = (Success f fp t, st')"
    by (cases v; simp add: downloadTikTokVideo_def split: videoData.splits)
  from retrieve_success [OF r] have "title = JStr t" by blast
  with pr ch b v r show ?thesis by simp
qed

text \<open>
  C6. When the probe succeeds, the chain resolves with a string title and the \<open>GET\<close> of the
  media URL is answered with a status that is not 2xx, \<open>downloadTikTokVideo\<close> returns
  \<open>success: false\<close> with an error message in which the decimal status code occurs. When the
  status is 2xx and writing the stream fails with an error, it returns \<open>success: false\<close>
  with that error's message. And \<open>success: true\<close> is returned only when the media request
  was answered 2xx and the stream was written to the end.
\<close>

theorem retrieval_failure:
  "(testNetworkConnectivity env st = (True, st1)
      \<and> tryTikWmAPI env url st1 = (Inr (VideoData videoUrl (JStr t)), st2)
      \<and> do_fetch env (media_request videoUrl) st2 = (Fulfilled videoRes, st3)
      \<and> \<not> ok videoRes \<longrightarrow>
      (\<exists>msg. downloadTikTokVideo env url p st = (Failure msg, st3)
             \<and> sublist (show_nat (res_status videoRes)) msg))
   \<and> (testNetworkConnectivity env st = (True, st1)
      \<and> tryTikWmAPI env url st1 = (Inr (VideoData videoUrl (JStr t)), st2)
      \<and> do_fetch env (media_request videoUrl) st2 = (Fulfilled videoRes, st3)
      \<and> ok videoRes
      \<and> do_pipeline env videoRes (path_join env p (destName t (videoId url))) st3 = (Some e, st4)
      \<longrightarrow> downloadTikTokVideo env url p st = (Failure (message e), st4))
   \<and> (downloadTikTokVideo env url p st = (Success f fp t', st') \<longrightarrow>
      (\<exists>s1 u s2 res s3. testNetworkConnectivity env st = (True, s1)
          \<and> tryTikWmAPI env url s1 = (Inr (VideoData u (JStr t')), s2)
          \<and> do_fetch env (media_request u) s2 = (Fulfilled res, s3) \<and> ok res
          \<and> do_pipeline env res (path_join env p (destName t' (videoId url))) s3 = (None, st')))"
proof (intro conjI impI)
  assume a: "testNetworkConnectivity env st = (True, st1)
      \<and> tryTikWmAPI env url st1 = (Inr (VideoData videoUrl (JStr t)), st2)
      \<and> do_fetch env (media_request videoUrl) st2 = (Fulfilled videoRes, st3)
      \<and> \<not> ok videoRes"
  then have "downloadTikTokVideo env url p st =
      (Failure (js ''Video download failed: '' @ show_nat (res_status videoRes)
                @ js '' '' @ res_statusText videoRes), st3)"
    by (simp add: downloadTikTokVideo_def retrieve_def Let_def)
  moreover have "sublist (show_nat (res_status videoRes))
      (js ''Video download failed: '' @ show_nat (res_status videoRes)
                @ js '' '' @ res_statusText videoRes)"
    by (rule sublist_middle)
  ultimately show "\<exists>msg. downloadTikTokVideo env url p st = (Failure msg, st3)
             \<and> sublist (show_nat (res_status videoRes)) msg"
    by blast
next
  assume "testNetworkConnectivity env st = (True, st1)
      \<and> tryTikWmAPI env url st1 = (Inr (VideoData videoUrl (JStr t)), st2)
      \<and> do_fetch env (media_request videoUrl) st2 = (Fulfilled videoRes, st3)
      \<and> ok videoRes
      \<and> do_pipeline env videoRes (path_join env p (destName t (videoId url))) st3 = (Some e, st4)"
  then show "downloadTikTokVideo env url p st = (Failure (message e), st4)"
    by (simp add: downloadTikTokVideo_def retrieve_def Let_def)
next
  assume "downloadTikTokVideo env url p st = (Success f fp t', st')"
  from download_success [OF this] obtain s1 u s2 where
    1: "testNetworkConnectivity env st = (True, s1)"
    and 2: "tryTikWmAPI env url s1 = (Inr (VideoData u (JStr t')), s2)"
    and 3: "retrieve env url p u (JStr t') s2 = (Success f fp t', st')"
    by blast
  from retrieve_success [OF 3] 1 2
  show "\<exists>s1 u s2 res s3. testNetworkConnectivity env st = (True, s1)
          \<and> tryTikWmAPI env url s1 = (Inr (VideoData u (JStr t')), s2)
          \<and> do_fetch env (media_request u) s2 = (Fulfilled res, s3) \<and> ok res
          \<and> do_pipeline env res (path_join env p (destName t' (videoId url))) s3 = (None, st')"
    by blast
qed

theorem retrieval_failure_witness:
  "fst (downloadTikTokVideo (scripted None) (js ''https://www.tiktok.com/@u/video/111'')
          (js ''/tmp'')
          (start [reply 200 None None, reply 200 None (Some demo_payload), reply 404 None None]))
   = Failure (js ''Video download failed: 404 '')"
proof -
  let ?url = "js ''https://www.tiktok.com/@u/video/111''"
  let ?st = "start [reply 200 None None, reply 200 None (Some demo_payload), reply 404 None None]"
  let ?res = "\<lparr>res_status = 404, res_statusText = [], res_content_type = None, res_json = None\<rparr>"
  obtain st1 where 1: "testNetworkConnectivity (scripted None) ?st = (True, st1)"
    and w1: "world st1 = [reply 200 None (Some demo_payload), reply 404 None None]"
    by (simp add: testNetworkConnectivity_def script_defs)
  obtain st2 where 2: "tryTikWmAPI (scripted None) ?url st1 =
        (Inr (VideoData (JStr (js ''https://cdn/x.mp4'')) (JStr (js ''Hello! World??''))), st2)"
    and w2: "world st2 = [reply 404 None None]"
    using w1
    by (simp add: tryTikWmAPI_def endpoints_def try_endpoint_def inspect_def check_play_def
          uri_defs str_defs script_defs demo_payload_def)
  obtain st3 where 3: "do_fetch (scripted None) (media_request (JStr (js ''https://cdn/x.mp4''))) st2
        = (Fulfilled ?res, st3)"
    using w2 by (simp add: do_fetch_def scripted_def reply_def)
  have 4: "\<not> ok ?res" by (simp add: ok_def)
  from retrieval_failure [of "scripted None" ?st st1 ?url _ _ st2 ?res st3 "js ''/tmp''"] 1 2 3 4
  obtain msg where "downloadTikTokVideo (scripted None) ?url (js ''/tmp'') ?st = (Failure msg, st3)"
    by blast
  moreover from 1 2 3 4
  have "fst (downloadTikTokVideo (scripted None) ?url (js ''/tmp'') ?st)
     = Failure (js ''Video download failed: 404 '')"
    by (simp add: downloadTikTokVideo_def retrieve_def Let_def js_def)
  ultimately show ?thesis by simp
qed

section \<open>C7: the connectivity probe\<close>

text \<open>
  What holds in both files: a rejected probe request counts as unreachable, the probe makes
  exactly one request, and an unreachable network ends the download before any provider
  endpoint is asked.
\<close>

lemma probe_exception:
  "fetch env probe_request (world st) = (Rejected e, w) \<Longrightarrow>
   fst (testNetworkConnectivity env st) = False
   \<and> fst (index_testNetworkConnectivity env st) = JBool False"
  by (simp add: testNetworkConnectivity_def index_testNetworkConnectivity_def do_fetch_def)

lemma probe_log:
  "log (snd (testNetworkConnectivity env st)) = log st @ [probe_request]
   \<and> log (snd (index_testNetworkConnectivity env st)) = log st @ [probe_request]"
  by (auto simp: testNetworkConnectivity_def index_testNetworkConnectivity_def do_fetch_def
           split: prod.splits fetch_result.splits)

lemma unreachable_server:
  "\<not> fst (testNetworkConnectivity env st) \<Longrightarrow>
   downloadTikTokVideo env url p st =
     (Failure (js ''Network connectivity issues detected''), snd (testNetworkConnectivity env st))"
  by (cases "testNetworkConnectivity env st") (simp add: downloadTikTokVideo_def)

lemma unreachable_index:
  "\<not> truthy (fst (index_testNetworkConnectivity env st)) \<Longrightarrow>
   downloadTikTok env dirname url st = (NetworkIssues, snd (index_testNetworkConnectivity env st))"
  by (cases "index_testNetworkConnectivity env st") (simp add: downloadTikTok_def)

text \<open>
  C7 claims a boolean on every path of the probe. In index.mjs the path of a response that
  is not 2xx ends without a \<open>return\<close>: the probe answers \<open>undefined\<close> where the probe of
  server.mjs answers \<open>false\<close>.
\<close>

theorem index_probe_undefined:
  "fst (index_testNetworkConnectivity (scripted None) (start [reply 503 None None])) = JUndefined
   \<and> fst (testNetworkConnectivity (scripted None) (start [reply 503 None None])) = False"
  by (simp add: index_testNetworkConnectivity_def testNetworkConnectivity_def script_defs)

section \<open>C8: the fallback prober\<close>

lemma try_candidate_spec:
  "try_candidate env vid u st =
   (case do_fetch env (head_request u) st of (r, st1) \<Rightarrow> (spec_candidate vid u r, st1))"
  by (simp add: try_candidate_def spec_candidate_def split: prod.splits fetch_result.splits)

lemma candidates_loop_spec:
  "candidates_loop env vid us st = spec_chain head_request (spec_candidate vid) env us st"
  by (induction us arbitrary: st) (auto simp: try_candidate_spec split: prod.splits option.splits)

text \<open>
  C8, as amended. In index.mjs, when the probe succeeds and the provider chain returns
  \<open>null\<close>, \<open>downloadTikTok\<close> goes on with what \<open>tryAlternativeAPI\<close> returns. That function
  returns \<open>null\<close> without a request when \<open>video/\<close> followed by a digit does not occur in the
  URL; otherwise the id is a non-empty run of digits after \<open>video/\<close>, and the function is
  the specification's chain over the candidate URLs with \<open>HEAD\<close> requests: in order, the
  first 2xx answer with a content type containing \<open>video\<close> resolves to that candidate with
  the title \<open>tiktok_\<close> and the id, and \<open>null\<close> when no candidate does. In server.mjs there
  is no fallback: the chain returning \<open>null\<close> ends the download with the error
  \<open>Failed to fetch video data from all APIs\<close>.
\<close>

theorem fallback_prober:
  "(index_testNetworkConnectivity env st = (networkOk, st1) \<and> truthy networkOk
      \<and> index_tryTikWmAPI env url st1 = (Inr NullData, st2) \<longrightarrow>
      downloadTikTok env dirname url st =
        index_finish env dirname url (fst (tryAlternativeAPI env url st2))
          (snd (tryAlternativeAPI env url st2)))
   \<and> (\<not> (\<exists>a d b. url = a @ js ''video/'' @ d # b \<and> is_digit d) \<longrightarrow>
        tryAlternativeAPI env url st = (NullData, st))
   \<and> (match_video url = Some vid \<longrightarrow>
        vid \<noteq> [] \<and> (\<forall>c \<in> set vid. is_digit c) \<and> sublist (js ''video/'' @ vid) url
        \<and> tryAlternativeAPI env url st
            = spec_chain head_request (spec_candidate vid) env (possibleVideoUrls vid) st
        \<and> (\<exists>k \<le> length (possibleVideoUrls vid).
              log (snd (tryAlternativeAPI env url st))
                = log st @ map head_request (take k (possibleVideoUrls vid))))
   \<and> (testNetworkConnectivity env st = (True, st1)
      \<and> tryTikWmAPI env url st1 = (Inr NullData, st2) \<longrightarrow>
        downloadTikTokVideo env url p st
          = (Failure (js ''Failed to fetch video data from all APIs''), st2))"
proof (intro conjI impI)
  assume "index_testNetworkConnectivity env st = (networkOk, st1) \<and> truthy networkOk
      \<and> index_tryTikWmAPI env url st1 = (Inr NullData, st2)"
  then show "downloadTikTok env dirname url st =
        index_finish env dirname url (fst (tryAlternativeAPI env url st2))
          (snd (tryAlternativeAPI env url st2))"
    by (simp add: downloadTikTok_def split: prod.splits)
next
  assume "\<not> (\<exists>a d b. url = a @ js ''video/'' @ d # b \<and> is_digit d)"
  then have "match_video url = None" by (simp add: match_video_None)
  then show "tryAlternativeAPI env url st = (NullData, st)"
    by (simp add: tryAlternativeAPI_def)
next
  assume m: "match_video url = Some vid"
  from match_video_Some [OF m] show "vid \<noteq> []" by blast
  from match_video_Some [OF m] show "\<forall>c \<in> set vid. is_digit c" by blast
  from match_video_Some [OF m] show "sublist (js ''video/'' @ vid) url" by blast
  from m show e: "tryAlternativeAPI env url st
            = spec_chain head_request (spec_candidate vid) env (possibleVideoUrls vid) st"
    by (simp add: tryAlternativeAPI_def candidates_loop_spec)
  from spec_chain_log [of "possibleVideoUrls vid" head_request "spec_candidate vid" env st] e
  show "\<exists>k \<le> length (possibleVideoUrls vid).
              log (snd (tryAlternativeAPI env url st))
                = log st @ map head_request (take k (possibleVideoUrls vid))"
    by simp
next
  assume "testNetworkConnectivity env st = (True, st1)
      \<and> tryTikWmAPI env url st1 = (Inr NullData, st2)"
  then show "downloadTikTokVideo env url p st
          = (Failure (js ''Failed to fetch video data from all APIs''), st2)"
    by (simp add: downloadTikTokVideo_def)
qed

theorem fallback_prober_witness:
  "fst (downloadTikTok (scripted None) (js ''/tmp'') (js ''https://www.tiktok.com/@u/video/111'')
          (start [reply 200 None None, reply 500 None None, reply 500 None None,
                  reply 404 None None, reply 200 (Some (js ''video/mp4'')) None,
                  reply 200 None None]))
   = Downloaded (js ''/tmp/tiktok_111_111.mp4'')"
proof -
  let ?url = "js ''https://www.tiktok.com/@u/video/111''"
  let ?st = "start [reply 200 None None, reply 500 None None, reply 500 None None,
                  reply 404 None None, reply 200 (Some (js ''video/mp4'')) None,
                  reply 200 None None]"
  obtain st1 where 1: "index_testNetworkConnectivity (scripted None) ?st = (JBool True, st1)"
    and w1: "world st1 = [reply 500 None None, reply 500 None None,
                  reply 404 None None, reply 200 (Some (js ''video/mp4'')) None,
                  reply 200 None None]"
    by (simp add: index_testNetworkConnectivity_def script_defs)
  obtain st2 where 2: "index_tryTikWmAPI (scripted None) ?url st1 = (Inr NullData, st2)"
    and w2: "world st2 = [reply 404 None None, reply 200 (Some (js ''video/mp4'')) None,
                  reply 200 None None]"
    using w1
    by (simp add: index_tryTikWmAPI_def endpoints_def index_try_endpoint_def
          uri_defs str_defs script_defs)
  have m: "match_video ?url = Some (js ''111'')" by (simp add: str_defs)
  from fallback_prober [of "scripted None" ?st "JBool True" st1 ?url st2 "js ''/tmp''"] 1 2
  have d: "downloadTikTok (scripted None) (js ''/tmp'') ?url ?st =
        index_finish (scripted None) (js ''/tmp'') ?url
          (fst (tryAlternativeAPI (scripted None) ?url st2))
          (snd (tryAlternativeAPI (scripted None) ?url st2))"
    by simp
  obtain st3 where 3: "tryAlternativeAPI (scripted None) ?url st2 =
      (VideoData (JStr (js ''https://v19-webapp.tiktok.com/video/tos/maliva/111/''))
                 (JStr (js ''tiktok_111'')), st3)"
    and w3: "world st3 = [reply 200 None None]"
    using w2 m
    by (simp add: tryAlternativeAPI_def try_candidate_def possibleVideoUrls_def is_video_def
          script_defs js_def)
  from w3 have "fst (index_finish (scripted None) (js ''/tmp'') ?url
      (VideoData (JStr (js ''https://v19-webapp.tiktok.com/video/tos/maliva/111/''))
                 (JStr (js ''tiktok_111''))) st3) = Downloaded (js ''/tmp/tiktok_111_111.mp4'')"
    using m
    by (simp add: index_finish_def index_retrieve_def script_defs destName_def
          sanitizedTitle_def videoId_def str_defs Let_def)
  with d 3 show ?thesis by simp
qed

text \<open>
  C8 as the specification states it fails for server.mjs: with both endpoints abstaining
  and a candidate that would answer, the download fails and no \<open>HEAD\<close> request is made.
\<close>

theorem fallback_prober_counterexample:
  "fst (downloadTikTokVideo (scripted None) (js ''https://www.tiktok.com/@u/video/111'')
          (js ''/tmp'')
          (start [reply 200 None None, reply 500 None None, reply 500 None None,
                  reply 200 (Some (js ''video/mp4'')) None, reply 200 None None]))
     = Failure (js ''Failed to fetch video data from all APIs'')
   \<and> map req_method
       (log (snd (downloadTikTokVideo (scripted None) (js ''https://www.tiktok.com/@u/video/111'')
          (js ''/tmp'')
          (start [reply 200 None None, reply 500 None None, reply 500 None None,
                  reply 200 (Some (js ''video/mp4'')) None, reply 200 None None]))))
     = [GET, GET, GET]"
  by (simp add: downloadTikTokVideo_def testNetworkConnectivity_def tryTikWmAPI_def
        endpoints_def try_endpoint_def uri_defs str_defs script_defs)

section \<open>C9: the placeholder title and id\<close>

text \<open>
  C9, as amended. For every payload with a play URL the resolution carries the payload's
  title when it holds a truthy value and the title \<open>tiktok_video\<close> otherwise. For every URL
  in which \<open>video/\<close> followed by a digit does not occur (with or without a slash before
  it), the id is \<open>tiktok_video\<close>, the destination name is the sanitized title followed by
  \<open>_tiktok_video.mp4\<close>, and a successful download has that file name.
\<close>

theorem placeholder_title_and_id:
  "(has_play data \<longrightarrow>
      inspect data =
        Inr (Some (VideoData (field (field data (js ''data'')) (js ''play''))
                     (if truthy (field (field data (js ''data'')) (js ''title''))
                      then field (field data (js ''data'')) (js ''title'')
                      else JStr (js ''tiktok_video'')))))
   \<and> (\<not> (\<exists>a d b. url = a @ js ''video/'' @ d # b \<and> is_digit d) \<longrightarrow>
        videoId url = js ''tiktok_video''
        \<and> destName t (videoId url) = sanitizedTitle t @ js ''_tiktok_video.mp4'')
   \<and> (\<not> (\<exists>a d b. url = a @ js ''video/'' @ d # b \<and> is_digit d)
      \<and> downloadTikTokVideo env url p st = (Success f fp t, st') \<longrightarrow>
        f = sanitizedTitle t @ js ''_tiktok_video.mp4'')"
proof (intro conjI impI)
  assume h: "has_play data"
  then have "data \<noteq> JNull" "data \<noteq> JUndefined" using has_play_defined by blast+
  with h show "inspect data =
        Inr (Some (VideoData (field (field data (js ''data'')) (js ''play''))
                     (if truthy (field (field data (js ''data'')) (js ''title''))
                      then field (field data (js ''data'')) (js ''title'')
                      else JStr (js ''tiktok_video''))))"
    by (simp add: inspect_def check_play_spec resolved_def)
next
  assume n: "\<not> (\<exists>a d b. url = a @ js ''video/'' @ d # b \<and> is_digit d)"
  then show v: "videoId url = js ''tiktok_video''" by (rule videoId_placeholder)
  then show "destName t (videoId url) = sanitizedTitle t @ js ''_tiktok_video.mp4''"
    by (simp add: destName_def js_def)
next
  assume a: "\<not> (\<exists>a d b. url = a @ js ''video/'' @ d # b \<and> is_digit d)
      \<and> downloadTikTokVideo env url p st = (Success f fp t, st')"
  then have v: "videoId url = js ''tiktok_video''" using videoId_placeholder by blast
  from a download_success obtain st1 videoUrl st2 where
    "retrieve env url p videoUrl (JStr t) st2 = (Success f fp t, st')" by blast
  from retrieve_success [OF this] have "f = destName t (videoId url)" by blast
  with v show "f = sanitizedTitle t @ js ''_tiktok_video.mp4''"
    by (simp add: destName_def js_def)
qed

theorem placeholder_title_and_id_witness:
  "fst (downloadTikTokVideo (scripted None) (js ''https://vm.tiktok.com/ZM8abc/'') (js ''/tmp'')
          (start [reply 200 None None,
                  reply 200 None (Some (JObj [(js ''data'',
                     JObj [(js ''play'', JStr (js ''https://cdn/x.mp4''))])])),
                  reply 200 None None]))
   = Success (js ''tiktok_video_tiktok_video.mp4'') (js ''/tmp/tiktok_video_tiktok_video.mp4'')
       (js ''tiktok_video'')"
proof -
  let ?url = "js ''https://vm.tiktok.com/ZM8abc/''"
  let ?st = "start [reply 200 None None,
                  reply 200 None (Some (JObj [(js ''data'',
                     JObj [(js ''play'', JStr (js ''https://cdn/x.mp4''))])])),
                  reply 200 None None]"
  have m: "match_video ?url = None" by (simp add: str_defs)
  then have n: "\<not> (\<exists>a d b. ?url = a @ js ''video/'' @ d # b \<and> is_digit d)"
    by (rule match_video_None [THEN iffD1])
  have r: "fst (downloadTikTokVideo (scripted None) ?url (js ''/tmp'') ?st)
     = Success (destName (js ''tiktok_video'') (videoId ?url))
         (js ''/tmp/'' @ destName (js ''tiktok_video'') (videoId ?url)) (js ''tiktok_video'')"
    by (simp add: downloadTikTokVideo_def testNetworkConnectivity_def tryTikWmAPI_def
          endpoints_def try_endpoint_def inspect_def check_play_def retrieve_def
          uri_defs is_digit_def is_upper_def is_lower_def script_defs Let_def js_def [of "''/''"]
          js_def [of "''https://vm.tiktok.com/ZM8abc/''"] js_def [of "''data''"]  js_def [of "''play''"] js_def [of "''title''"]
          js_def [of "''/tmp''"] js_def [of "''/tmp/''"] js_def [of "''https://cdn/x.mp4''"]
        del: match_video.simps)
  from placeholder_title_and_id [of _ ?url "js ''tiktok_video''"] n
  have "destName (js ''tiktok_video'') (videoId ?url)
          = sanitizedTitle (js ''tiktok_video'') @ js ''_tiktok_video.mp4''"
    by blast
  moreover have "sanitizedTitle (js ''tiktok_video'') @ js ''_tiktok_video.mp4''
      = js ''tiktok_video_tiktok_video.mp4''"
    by (simp add: sanitizedTitle_def str_defs)
  ultimately show ?thesis using r by (simp add: js_def)
qed

text \<open>
  C9 as the specification states it fails where \<open>video/\<close> is the end of a longer path
  segment: the URL has no \<open>/video/\<close> in it, and the id is \<open>123\<close>.
\<close>

theorem placeholder_title_and_id_counterexample:
  "\<not> sublist (js ''/video/'') (js ''https://www.tiktok.com/@u/myvideo/123'')
   \<and> videoId (js ''https://www.tiktok.com/@u/myvideo/123'') = js ''123''
   \<and> videoId (js ''https://www.tiktok.com/@u/myvideo/123'') \<noteq> js ''tiktok_video''"
  by (simp add: str_includes_sublist [symmetric] videoId_def str_defs)

section \<open>C10: the play URL before the message\<close>

text \<open>
  C10. For every payload with a play URL the inspection of server.mjs returns the
  resolution made from that payload, whatever message the payload also carries: putting
  any \<open>msg\<close> in front of the payload's fields changes nothing, so the message is not
  looked at. An endpoint answering 2xx with such a payload ends the chain with it.
\<close>

theorem play_before_message:
  "(has_play data \<longrightarrow> inspect data = Inr (Some (resolved data)))
   \<and> (has_play (JObj kvs) \<longrightarrow>
        inspect (JObj ((js ''msg'', m) # kvs)) = Inr (Some (resolved (JObj kvs))))
   \<and> (do_fetch env (api_request a) st = (Fulfilled res, st1) \<and> ok res
        \<and> res_json res = Some data \<and> has_play data \<longrightarrow>
        endpoints_loop env (a # rest) st = (resolved data, st1))"
proof -
  have a: "inspect d = Inr (Some (resolved d))" if "has_play d" for d
  proof -
    from that have "d \<noteq> JNull" "d \<noteq> JUndefined" using has_play_defined by blast+
    with that show ?thesis by (simp add: inspect_def check_play_spec)
  qed
  have ne: "js ''msg'' \<noteq> js ''data''" by (simp add: js_def)
  have b: "inspect (JObj ((js ''msg'', m) # kvs)) = Inr (Some (resolved (JObj kvs)))"
    if "has_play (JObj kvs)"
  proof -
    have f: "field (JObj ((js ''msg'', m) # kvs)) (js ''data'') = field (JObj kvs) (js ''data'')"
      using ne by (simp add: field_def)
    with that have "has_play (JObj ((js ''msg'', m) # kvs))" by (simp add: has_play_def)
    from a [OF this] f show ?thesis by (simp add: resolved_def)
  qed
  have c: "endpoints_loop env (a # rest) st = (resolved data, st1)"
    if "do_fetch env (api_request a) st = (Fulfilled res, st1)" "ok res"
       "res_json res = Some data" "has_play data"
    using that by (simp add: try_endpoint_spec spec_outcome_def)
  from a b c show ?thesis by blast
qed

theorem play_before_message_witness:
  "inspect (JObj [(js ''msg'', JStr (js ''private'')),
                  (js ''data'', JObj [(js ''play'', JStr (js ''https://cdn/x.mp4''))])])
   = Inr (Some (VideoData (JStr (js ''https://cdn/x.mp4'')) (JStr (js ''tiktok_video''))))"
  using play_before_message
    [of "JObj [(js ''data'', JObj [(js ''play'', JStr (js ''https://cdn/x.mp4''))])]"
        "[(js ''data'', JObj [(js ''play'', JStr (js ''https://cdn/x.mp4''))])]"
        "JStr (js ''private'')", THEN conjunct2, THEN conjunct1]
  by (simp add: has_play_def resolved_def field_def js_def)

end
